theory Spec2Isabelle
  imports Main
begin

section \<open>JavaScript values and exceptions\<close>

text \<open>
  The guard's \<^verbatim>\<open>handleRequest\<close> is typed with \<^verbatim>\<open>any\<close>: it receives arbitrary
  JavaScript values and only ever tests them for \<^verbatim>\<open>undefined\<close>, \<^verbatim>\<open>null\<close> and
  truthiness. A value is therefore one of the primitives, an instance of the framework's
  \<^verbatim>\<open>HttpException\<close> class, or any other object. The type parameter \<open>'o\<close> is
  whatever represents those other objects (an \<^verbatim>\<open>Error\<close>, a decoded payload, Passport's
  info): the code never looks inside them. Finite numbers are restricted to the integers
  (\<^verbatim>\<open>-0\<close> is \<open>Number 0\<close>), \<open>NaN\<close> is a value of its own; strings are byte strings.
\<close>

text \<open>
  \<^verbatim>\<open>HttpException\<close> of \<^verbatim>\<open>@nestjs/common\<close>, as far as this program reads it: the class
  name, the status returned by \<^verbatim>\<open>getStatus()\<close> and the \<^verbatim>\<open>message\<close> property.
\<close>

record HttpException =
  name :: string
  getStatus :: int
  message :: string

datatype 'o js_value =
    Undefined
  | Null
  | Bool bool
  | NaN
  | Number int
  | Str string
  | HttpExceptionObject HttpException
  | Object 'o

text \<open>JavaScript's ToBoolean, which \<^verbatim>\<open>!user\<close> negates.\<close>

fun truthy :: "'o js_value \<Rightarrow> bool" where
  "truthy Undefined = False"
| "truthy Null = False"
| "truthy (Bool b) = b"
| "truthy NaN = False"
| "truthy (Number n) = (n \<noteq> 0)"
| "truthy (Str s) = (s \<noteq> [])"
| "truthy (HttpExceptionObject e) = True"
| "truthy (Object ob) = True"

text \<open>The members of the framework's \<^verbatim>\<open>HttpStatus\<close> enum that the program names or raises.\<close>

definition HttpStatus_UNAUTHORIZED :: int where
  "HttpStatus_UNAUTHORIZED = 401"

definition HttpStatus_NOT_FOUND :: int where
  "HttpStatus_NOT_FOUND = 404"

definition HttpStatus_INTERNAL_SERVER_ERROR :: int where
  "HttpStatus_INTERNAL_SERVER_ERROR = 500"

text \<open>
  \<^verbatim>\<open>new UnauthorizedException(msg)\<close> with a string argument: an \<^verbatim>\<open>HttpException\<close>
  of status 401 whose \<^verbatim>\<open>message\<close> is the argument.
\<close>

definition UnauthorizedException :: "string \<Rightarrow> HttpException" where
  "UnauthorizedException msg =
     \<lparr>name = ''UnauthorizedException'', getStatus = HttpStatus_UNAUTHORIZED,
      HttpException.message = msg\<rparr>"

section \<open>The authentication guard (jwt-auth.guard.ts)\<close>

text \<open>
  \<^verbatim>\<open>
  override handleRequest(err: any, user: any, _info: any,
                         _context?: ExecutionContext, _status?: any): any {
    if (err !== undefined && err !== null) { throw err; }
    if (!user) { throw new UnauthorizedException('Requires authentication'); }
    return user;
  }
  \<close>
  A \<^verbatim>\<open>throw\<close> is the left injection carrying the thrown value, a \<^verbatim>\<open>return\<close> the right
  one. An omitted \<^verbatim>\<open>_context\<close> is \<open>None\<close>, an omitted \<^verbatim>\<open>_status\<close> is \<open>Undefined\<close>.
\<close>

definition handleRequest ::
  "'o js_value \<Rightarrow> 'o js_value \<Rightarrow> 'o js_value \<Rightarrow> 'c option \<Rightarrow> 'o js_value
     \<Rightarrow> 'o js_value + 'o js_value" where
  "handleRequest err user info ctx st =
     (if err \<noteq> Undefined \<and> err \<noteq> Null then Inl err
      else if \<not> truthy user then
        Inl (HttpExceptionObject (UnauthorizedException ''Requires authentication''))
      else Inr user)"

section \<open>The response models (models/messages.ts)\<close>

record Message =
  text' :: string

record ErrorMessage =
  message :: string

text \<open>
  The Express response, as far as the program drives it: \<^verbatim>\<open>status(code)\<close> sets the status
  code and \<^verbatim>\<open>json(body)\<close> sends the body. A response starts with Express's default status
  200 and nothing sent.
\<close>

datatype JsonBody = MessageJson Message | ErrorMessageJson ErrorMessage

record Response =
  statusCode :: int
  jsonBody :: "JsonBody option"

definition freshResponse :: Response where
  "freshResponse = \<lparr>statusCode = 200, jsonBody = None\<rparr>"

section \<open>The exception filter (http-exception.filter.ts)\<close>

text \<open>
  \<^verbatim>\<open>
  const errorMessages: Record<number, string> = {
    [HttpStatus.NOT_FOUND]: 'Not Found',
    [HttpStatus.INTERNAL_SERVER_ERROR]: 'Internal server error',
  };
  \<close>
  Indexing the object with a status it does not hold gives \<^verbatim>\<open>undefined\<close>, here \<open>None\<close>.
\<close>

definition errorMessages :: "int \<rightharpoonup> string" where
  "errorMessages =
     [HttpStatus_NOT_FOUND \<mapsto> ''Not Found'',
      HttpStatus_INTERNAL_SERVER_ERROR \<mapsto> ''Internal server error'']"

text \<open>The operator \<^verbatim>\<open>??\<close>: the right operand when the left one is \<^verbatim>\<open>undefined\<close>.\<close>

definition nullish :: "'a option \<Rightarrow> 'a \<Rightarrow> 'a" where
  "nullish v d = (case v of None \<Rightarrow> d | Some x \<Rightarrow> x)"

text \<open>
  \<^verbatim>\<open>
  catch(exception: HttpException, host: ArgumentsHost): void {
    const response = host.switchToHttp().getResponse<Response>();
    const status: number = exception.getStatus();
    const body: ErrorMessage = { message: errorMessages[status] ?? exception.message };
    response.status(status).json(body);
  }
  \<close>
  The host is its response, and the effect on it is the function's result.
\<close>

definition catch :: "HttpException \<Rightarrow> Response \<Rightarrow> Response" where
  "catch exception response =
     (let status = getStatus exception;
          body = \<lparr>ErrorMessage.message =
                    nullish (errorMessages status) (HttpException.message exception)\<rparr>
      in response\<lparr>statusCode := status, jsonBody := Some (ErrorMessageJson body)\<rparr>)"

section \<open>The JWT strategy (jwt.strategy.ts)\<close>

text \<open>
  \<^verbatim>\<open>ConfigService.get<string>(key)\<close> gives the configured string or \<^verbatim>\<open>undefined\<close>: the
  configuration is a partial map from variable names to strings.
\<close>

type_synonym ConfigService = "string \<rightharpoonup> string"

text \<open>
  \<^verbatim>\<open>String.prototype.endsWith\<close>. The model's strings are byte strings, and the last byte of
  a UTF-8 string is \<^verbatim>\<open>'/'\<close> exactly when its last character is, so the test agrees with
  JavaScript's on UTF-16 code units.
\<close>

definition endsWith :: "string \<Rightarrow> string \<Rightarrow> bool" where
  "endsWith s searchString =
     (length searchString \<le> length s \<and>
      drop (length s - length searchString) s = searchString)"

text \<open>The decoded payload, \<^verbatim>\<open>interface JwtPayload\<close>: every claim is optional.\<close>

datatype Audience = Single string | Many "string list"

record JwtPayload =
  sub :: "string option"
  iss :: "string option"
  aud :: "Audience option"
  exp :: "int option"
  iat :: "int option"

datatype JwtFromRequest = FromAuthHeaderAsBearerToken

text \<open>The options handed to \<^verbatim>\<open>passportJwtSecret\<close> of \<^verbatim>\<open>jwks-rsa\<close>.\<close>

record JwksOptions =
  cache :: bool
  rateLimit :: bool
  jwksRequestsPerMinute :: nat
  jwksUri :: string

text \<open>The options handed to the \<^verbatim>\<open>passport-jwt\<close> strategy by \<^verbatim>\<open>super({...})\<close>.\<close>

record StrategyOptions =
  jwtFromRequest :: JwtFromRequest
  ignoreExpiration :: bool
  secretOrKeyProvider :: JwksOptions
  audience :: string
  issuer :: string
  algorithms :: "string list"

text \<open>
  \<^verbatim>\<open>
  constructor(private readonly configService: ConfigService) {
    const issuerBaseUrl: string = configService.get<string>('AUTH0_ISSUER_BASE_URL') ?? '';
    const audience: string = configService.get<string>('AUTH0_AUDIENCE') ?? '';
    const jwksUri: string = issuerBaseUrl.endsWith('/')
      ? `${issuerBaseUrl}.well-known/jwks.json`
      : `${issuerBaseUrl}/.well-known/jwks.json`;
    super({
      jwtFromRequest: ExtractJwt.fromAuthHeaderAsBearerToken(),
      ignoreExpiration: false,
      secretOrKeyProvider: passportJwtSecret({
        cache: true, rateLimit: true, jwksRequestsPerMinute: 5, jwksUri }),
      audience,
      issuer: issuerBaseUrl.endsWith('/') ? issuerBaseUrl : `${issuerBaseUrl}/`,
      algorithms: ['RS256'],
    });
  }
  \<close>
  The constructor's result is the options object it passes on.
\<close>

definition JwtStrategy_constructor :: "ConfigService \<Rightarrow> StrategyOptions" where
  "JwtStrategy_constructor configService =
     (let issuerBaseUrl = nullish (configService ''AUTH0_ISSUER_BASE_URL'') [];
          audience' = nullish (configService ''AUTH0_AUDIENCE'') [];
          jwksUri' = (if endsWith issuerBaseUrl ''/''
                      then issuerBaseUrl @ ''.well-known/jwks.json''
                      else issuerBaseUrl @ ''/.well-known/jwks.json'')
      in \<lparr>jwtFromRequest = FromAuthHeaderAsBearerToken,
          ignoreExpiration = False,
          secretOrKeyProvider =
            \<lparr>cache = True, rateLimit = True, jwksRequestsPerMinute = 5, jwksUri = jwksUri'\<rparr>,
          audience = audience',
          issuer = (if endsWith issuerBaseUrl ''/'' then issuerBaseUrl
                    else issuerBaseUrl @ ''/''),
          algorithms = [''RS256'']\<rparr>)"

text \<open>
  \<^verbatim>\<open>validate(payload: JwtPayload): JwtPayload { return payload; }\<close>
  TypeScript's interfaces are structural, so the payload may carry further claims: the
  function is defined on every extension of the record.
\<close>

definition validate :: "'a JwtPayload_scheme \<Rightarrow> 'a JwtPayload_scheme" where
  "validate payload = payload"

section \<open>Start-up (main.ts)\<close>

datatype JsError = Error string

definition requiredEnvVars :: "string list" where
  "requiredEnvVars = [''PORT'', ''AUTH0_ISSUER_BASE_URL'', ''AUTH0_AUDIENCE'', ''CLIENT_ORIGIN_URL'']"

text \<open>
  \<^verbatim>\<open>
  for (const envVar of requiredEnvVars) {
    const value: string | undefined = configService.get<string>(envVar);
    if (value === undefined || value === '') {
      throw new Error(`Undefined environment variable: ${envVar}`);
    }
  }
  \<close>
  The loop is a recursion over the variables still to be checked; the empty string is
  the empty list.
\<close>

fun checkEnvironment_loop :: "ConfigService \<Rightarrow> string list \<Rightarrow> JsError + unit" where
  "checkEnvironment_loop configService [] = Inr ()"
| "checkEnvironment_loop configService (envVar # rest) =
     (let value' = configService envVar
      in if value' = None \<or> value' = Some []
         then Inl (Error (''Undefined environment variable: '' @ envVar))
         else checkEnvironment_loop configService rest)"

definition checkEnvironment :: "ConfigService \<Rightarrow> JsError + unit" where
  "checkEnvironment configService = checkEnvironment_loop configService requiredEnvVars"

text \<open>
  The Nest application, as far as \<^verbatim>\<open>bootstrap\<close> configures it. Each call on \<^verbatim>\<open>app\<close>
  updates one field; \<open>listening\<close> is \<open>None\<close> until \<^verbatim>\<open>app.listen(port)\<close> has bound the
  socket.
\<close>

datatype Port = PortString string | PortNumber nat

datatype GlobalFilter = HttpExceptionFilter

record CorsOptions =
  origin :: "string option"
  methods :: "string list"
  allowedHeaders :: "string list"
  maxAge :: nat

record HelmetOptions =
  hsts_maxAge :: nat
  frameguard_action :: string
  contentSecurityPolicy_directives :: "(string \<times> string list) list"

datatype Middleware = Nocache | Helmet HelmetOptions

record NestApplication =
  globalPrefix :: string
  globalFilters :: "GlobalFilter list"
  middleware :: "Middleware list"
  cors :: "CorsOptions option"
  listening :: "Port option"

definition NestFactory_create :: NestApplication where
  "NestFactory_create =
     \<lparr>globalPrefix = [], globalFilters = [], middleware = [], cors = None, listening = None\<rparr>"

definition setGlobalPrefix :: "string \<Rightarrow> NestApplication \<Rightarrow> NestApplication" where
  "setGlobalPrefix prefix app = app\<lparr>globalPrefix := prefix\<rparr>"

definition useGlobalFilters :: "GlobalFilter \<Rightarrow> NestApplication \<Rightarrow> NestApplication" where
  "useGlobalFilters f app = app\<lparr>globalFilters := globalFilters app @ [f]\<rparr>"

definition use :: "Middleware \<Rightarrow> NestApplication \<Rightarrow> NestApplication" where
  "use m app = app\<lparr>middleware := middleware app @ [m]\<rparr>"

definition enableCors :: "CorsOptions \<Rightarrow> NestApplication \<Rightarrow> NestApplication" where
  "enableCors options app = app\<lparr>cors := Some options\<rparr>"

text \<open>
  \<^verbatim>\<open>await app.listen(port)\<close> asks the runtime to bind the socket, and the runtime may
  refuse: a port out of range or already in use makes the awaited promise reject. The
  runtime is a parameter, \<open>bindPort port\<close> being \<open>None\<close> when the socket binds and the
  error otherwise. The program does not look at the port before the call. The result
  pairs how the promise settles with the application, which is listening only when the
  socket was bound.
\<close>

definition listen ::
  "(Port \<Rightarrow> JsError option) \<Rightarrow> Port \<Rightarrow> NestApplication
     \<Rightarrow> (JsError + unit) \<times> NestApplication" where
  "listen bindPort port app =
     (case bindPort port of
        None \<Rightarrow> (Inr (), app\<lparr>listening := Some port\<rparr>)
      | Some e \<Rightarrow> (Inl e, app))"

text \<open>
  \<^verbatim>\<open>
  async function bootstrap(): Promise<void> {
    const app = await NestFactory.create(AppModule);
    const configService: ConfigService = app.get<ConfigService>(ConfigService);
    checkEnvironment(configService);
    app.setGlobalPrefix('api');
    app.useGlobalFilters(new HttpExceptionFilter());
    app.use(nocache());
    app.enableCors({ origin: configService.get<string>('CLIENT_ORIGIN_URL'),
      methods: ['GET'], allowedHeaders: ['Authorization', 'Content-Type'], maxAge: 86400 });
    app.use(helmet({ hsts: { maxAge: 31536000 }, frameguard: { action: 'deny' },
      contentSecurityPolicy: { directives: {
        'default-src': ["'self'"], 'frame-ancestors': ["'none'"] } } }));
    const port: string | number = configService.get<string>('PORT') ?? 6060;
    await app.listen(port);
  }
  \<close>
  The result pairs how the promise settles (rejected with the thrown error, or fulfilled)
  with the application as the function left it. \<open>bindPort\<close> is the runtime that
  \<open>listen\<close> asks for the socket.
\<close>

definition bootstrap ::
  "(Port \<Rightarrow> JsError option) \<Rightarrow> ConfigService \<Rightarrow> (JsError + unit) \<times> NestApplication" where
  "bootstrap bindPort configService =
     (let app = NestFactory_create
      in case checkEnvironment configService of
           Inl e \<Rightarrow> (Inl e, app)
         | Inr u \<Rightarrow>
            (let app = setGlobalPrefix ''api'' app;
                 app = useGlobalFilters HttpExceptionFilter app;
                 app = use Nocache app;
                 app = enableCors
                         \<lparr>origin = configService ''CLIENT_ORIGIN_URL'',
                          methods = [''GET''],
                          allowedHeaders = [''Authorization'', ''Content-Type''],
                          maxAge = 86400\<rparr> app;
                 app = use (Helmet
                         \<lparr>hsts_maxAge = 31536000,
                          frameguard_action = ''deny'',
                          contentSecurityPolicy_directives =
                            [(''default-src'', [CHR 0x27 # ''self'' @ [CHR 0x27]]),
                             (''frame-ancestors'', [CHR 0x27 # ''none'' @ [CHR 0x27]])]\<rparr>) app;
                 port = (case configService ''PORT'' of
                           None \<Rightarrow> PortNumber 6060
                         | Some p \<Rightarrow> PortString p)
             in listen bindPort port app))"

section \<open>The messages service and controller\<close>

text \<open>
  \<^verbatim>\<open>MessagesService\<close> has no fields; an instance is the one value of its type. Each
  method takes the instance and returns a new object literal.
\<close>

datatype MessagesService = MessagesService

definition getPublicMessage :: "MessagesService \<Rightarrow> Message" where
  "getPublicMessage this = \<lparr>text' = ''This is a public message.''\<rparr>"

definition getProtectedMessage :: "MessagesService \<Rightarrow> Message" where
  "getProtectedMessage this = \<lparr>text' = ''This is a protected message.''\<rparr>"

definition getAdminMessage :: "MessagesService \<Rightarrow> Message" where
  "getAdminMessage this = \<lparr>text' = ''This is an admin message.''\<rparr>"

text \<open>
  The controller holds the injected service. Its handlers take no argument of the
  request; an \<^verbatim>\<open>async\<close> handler's result is the value its promise is fulfilled with.
\<close>

record MessagesController =
  messagesService :: MessagesService

definition getPublic :: "MessagesController \<Rightarrow> Message" where
  "getPublic this = getPublicMessage (messagesService this)"

definition getProtected :: "MessagesController \<Rightarrow> Message" where
  "getProtected this = getProtectedMessage (messagesService this)"

definition getAdmin :: "MessagesController \<Rightarrow> Message" where
  "getAdmin this = getAdminMessage (messagesService this)"

text \<open>
  The decorators of the controller as a table: the path under \<^verbatim>\<open>@Controller('messages')\<close>
  given to \<^verbatim>\<open>@Get\<close>, whether \<^verbatim>\<open>@UseGuards(JwtAuthGuard)\<close> stands on the handler, and the
  handler.
\<close>

record Route =
  path :: string
  useGuards :: bool
  handler :: "MessagesController \<Rightarrow> Message"

definition routes :: "Route list" where
  "routes =
     [\<lparr>path = ''messages/public'', useGuards = False, handler = getPublic\<rparr>,
      \<lparr>path = ''messages/protected'', useGuards = True, handler = getProtected\<rparr>,
      \<lparr>path = ''messages/admin'', useGuards = True, handler = getAdmin\<rparr>]"

section \<open>Token verification and request dispatch\<close>

text \<open>
  The verification itself (\<^verbatim>\<open>passport-jwt\<close>, \<^verbatim>\<open>jsonwebtoken\<close>, \<^verbatim>\<open>jwks-rsa\<close>), the call of
  the guard by \<^verbatim>\<open>@nestjs/passport\<close> and the routing of the framework are libraries the
  program configures; their code is not among the program's sources. The definitions of
  this section follow the specification's description of them and take from the sources
  the options the constructor builds, \<^verbatim>\<open>validate\<close>, \<^verbatim>\<open>handleRequest\<close>, \<^verbatim>\<open>catch\<close> and the
  route table.
\<close>

text \<open>
  Modelled from the spec: the failure reasons of the error taxonomy (section 7) and the
  Verification Outcome of the data model (section 3), a claim set or a failure reason.
\<close>

datatype VerificationFailure =
    MalformedToken
  | KeyResolutionFailed
  | SignatureInvalid
  | TokenExpired
  | AudienceMismatch
  | IssuerMismatch

datatype VerificationOutcome = Verified JwtPayload | Rejected VerificationFailure

text \<open>
  Modelled from the spec: the decoded header segment, with the algorithm it declares and
  its key identifier.
\<close>

record JwtHeader =
  alg :: string
  kid :: string

text \<open>
  Modelled from the spec: the external collaborators of the Token Verifier, taken as
  parameters. \<open>decodeHeader\<close> and \<open>decodeClaims\<close> decode a segment of the token (the
  header may fail to decode), \<open>resolveKey\<close> is the Key Resolver (\<open>None\<close> when the key
  identifier is unknown or the fetch fails) and \<open>signatureValid key algorithm token\<close>
  is the cryptographic check of the signature.
\<close>

record 'k Collaborators =
  decodeHeader :: "string \<Rightarrow> JwtHeader option"
  decodeClaims :: "string \<Rightarrow> JwtPayload"
  resolveKey :: "string \<Rightarrow> 'k option"
  signatureValid :: "'k \<Rightarrow> string \<Rightarrow> string \<Rightarrow> bool"

text \<open>
  Modelled from the spec: the dot-separated segments of a bearer token (``structurally
  three dot-separated segments'').
\<close>

fun segments :: "string \<Rightarrow> string list" where
  "segments [] = [[]]"
| "segments (c # cs) =
     (if c = CHR ''.'' then [] # segments cs
      else (case segments cs of [] \<Rightarrow> [[c]] | s # ss \<Rightarrow> (c # s) # ss))"

text \<open>
  Modelled from the spec: ``the audience claim (a single value or a set of values) does
  not contain \<^verbatim>\<open>expectedAudience\<close>''; an absent claim contains nothing.
\<close>

fun audienceContains :: "Audience option \<Rightarrow> string \<Rightarrow> bool" where
  "audienceContains None expected = False"
| "audienceContains (Some (Single a)) expected = (a = expected)"
| "audienceContains (Some (Many as)) expected = (expected \<in> set as)"

text \<open>
  Modelled from the spec: the Token Verifier's contract (section 4.1), check by check in
  the order the specification lists them. The expected issuer and audience, the accepted
  algorithms and whether expiration is checked are read from the options that
  \<open>JwtStrategy_constructor\<close> builds; \<open>now\<close> is the current time in seconds.
  A token is malformed when it is not three segments or its header does not decode; the
  key is resolved from the header's key identifier; a header algorithm outside the
  accepted ones, or a signature that does not verify, is \<open>SignatureInvalid\<close>; an
  expiration claim that is present and not strictly greater than \<open>now\<close> is
  \<open>TokenExpired\<close>; then audience and issuer; the decoded claims are returned as they are.
\<close>

definition verify ::
  "'k Collaborators \<Rightarrow> StrategyOptions \<Rightarrow> int \<Rightarrow> string \<Rightarrow> VerificationOutcome" where
  "verify env options now token =
     (case segments token of
        [h, c, s] \<Rightarrow>
          (case decodeHeader env h of
             None \<Rightarrow> Rejected MalformedToken
           | Some hdr \<Rightarrow>
              (case resolveKey env (kid hdr) of
                 None \<Rightarrow> Rejected KeyResolutionFailed
               | Some key \<Rightarrow>
                  if alg hdr \<notin> set (algorithms options) then Rejected SignatureInvalid
                  else if \<not> signatureValid env key (alg hdr) token then Rejected SignatureInvalid
                  else
                    (let payload = decodeClaims env c
                     in if \<not> ignoreExpiration options \<and>
                           (case exp payload of None \<Rightarrow> False | Some e \<Rightarrow> \<not> now < e)
                        then Rejected TokenExpired
                        else if \<not> audienceContains (aud payload) (audience options)
                        then Rejected AudienceMismatch
                        else if iss payload \<noteq> Some (issuer options)
                        then Rejected IssuerMismatch
                        else Verified payload)))
      | _ \<Rightarrow> Rejected MalformedToken)"

text \<open>
  Modelled from the spec: the extraction of the bearer token (section 4.2), ``expects the
  literal scheme prefix \<^verbatim>\<open>Bearer \<close> followed by the token''. The argument is the
  request's authorization header, \<open>None\<close> when the request has none.
\<close>

definition fromAuthHeaderAsBearerToken :: "string option \<Rightarrow> string option" where
  "fromAuthHeaderAsBearerToken authorization =
     (case authorization of
        None \<Rightarrow> None
      | Some v \<Rightarrow> if take 7 v = ''Bearer '' then Some (drop 7 v) else None)"

text \<open>
  Modelled from the spec: ``absence of the header or wrong scheme is treated identically
  to an invalid token, not a distinct error''.
\<close>

definition authenticate ::
  "'k Collaborators \<Rightarrow> StrategyOptions \<Rightarrow> int \<Rightarrow> string option \<Rightarrow> VerificationOutcome" where
  "authenticate env options now authorization =
     (case fromAuthHeaderAsBearerToken authorization of
        None \<Rightarrow> Rejected MalformedToken
      | Some token \<Rightarrow> verify env options now token)"

text \<open>
  Modelled from the spec: the objects the guard is handed, a failure's reason as info or
  the validated claim set as user.
\<close>

datatype PassportObject = FailureInfo VerificationFailure | Payload JwtPayload

text \<open>
  Modelled from the spec: the guard's \<^verbatim>\<open>activate\<close> (section 4.2). On a verification
  failure the guard's \<open>handleRequest\<close> is called with no error, the user \<^verbatim>\<open>false\<close> and
  the failure as info; on success with the result of the strategy's \<open>validate\<close> as the
  user. What \<open>handleRequest\<close> returns is attached to the request; what it throws
  rejects the request.
\<close>

definition canActivate ::
  "'k Collaborators \<Rightarrow> StrategyOptions \<Rightarrow> int \<Rightarrow> string option
     \<Rightarrow> PassportObject js_value + PassportObject js_value" where
  "canActivate env options now authorization =
     (case authenticate env options now authorization of
        Rejected reason \<Rightarrow>
          handleRequest Null (Bool False) (Object (FailureInfo reason)) (Some ()) Undefined
      | Verified payload \<Rightarrow>
          handleRequest Null (Object (Payload (validate payload))) Undefined (Some ()) Undefined)"

text \<open>
  Modelled from the spec: the control flow of section 2, ``inbound request, Authentication
  Guard (for protected routes only), Request Handler, response; any failure at any stage
  is caught by the Error Responder''. \<open>guardResult\<close> is what the guard's
  \<open>handleRequest\<close> did for this request; it is consulted for a guarded route only. A
  thrown \<^verbatim>\<open>HttpException\<close> goes to the filter's \<open>catch\<close>; any other thrown value is the
  taxonomy's \<^verbatim>\<open>UnhandledFault\<close> (500 with the fixed generic message).
\<close>

definition respond ::
  "Route \<Rightarrow> MessagesController \<Rightarrow> 'o js_value + 'o js_value \<Rightarrow> Response" where
  "respond route controller guardResult =
     (let success = freshResponse\<lparr>jsonBody := Some (MessageJson (handler route controller))\<rparr>
      in if useGuards route then
           (case guardResult of
              Inr user \<Rightarrow> success
            | Inl (HttpExceptionObject e) \<Rightarrow> catch e freshResponse
            | Inl other \<Rightarrow>
                freshResponse
                  \<lparr>statusCode := HttpStatus_INTERNAL_SERVER_ERROR,
                   jsonBody := Some (ErrorMessageJson
                     \<lparr>ErrorMessage.message = ''Internal server error''\<rparr>)\<rparr>)
         else success)"

section \<open>Concrete inputs\<close>

text \<open>
  The configuration of the test environment (jest-setup.ts): the value each variable
  gets when the process environment does not already define it.
\<close>

definition testConfig :: ConfigService where
  "testConfig =
     [''AUTH0_ISSUER_BASE_URL'' \<mapsto> ''https://test-tenant.auth0.com/'',
      ''AUTH0_AUDIENCE'' \<mapsto> ''https://test-api.example.com'',
      ''CLIENT_ORIGIN_URL'' \<mapsto> ''http://localhost:4040'',
      ''PORT'' \<mapsto> ''6061'']"

text \<open>
  One runtime: it refuses the port 99999, as Node refuses every port outside 0..65535,
  and binds every other one.
\<close>

definition exampleBind :: "Port \<Rightarrow> JsError option" where
  "exampleBind port =
     (if port = PortString ''99999'' \<or> port = PortNumber 99999
      then Some (Error ''options.port should be >= 0 and < 65536. Received 99999.'')
      else None)"

text \<open>The payload of the strategy's unit test (jwt.strategy.spec.ts).\<close>

definition testPayload :: JwtPayload where
  "testPayload =
     \<lparr>sub = Some ''auth0|user-123'', iss = Some ''https://test-tenant.auth0.com/'',
      aud = None, exp = None, iat = None\<rparr>"

text \<open>
  One instance of the verifier's collaborators, on which the theorems about tokens are
  exercised. Keys are strings. The header segment \<open>h1\<close> declares RS256 and \<open>h2\<close>
  declares HS256, both under the key identifier \<open>key-1\<close>, the only one the resolver
  knows. The claims segment \<open>c1\<close> expires at time 2000 and \<open>c2\<close> at time 1000; both
  carry the test environment's issuer and audience. The signature check accepts every
  token under the resolved key, which is the situation an algorithm-confusion attack
  aims for.
\<close>

definition exampleCollaborators :: "string Collaborators" where
  "exampleCollaborators =
     \<lparr>decodeHeader = (\<lambda>h.
          if h = ''h1'' then Some \<lparr>alg = ''RS256'', kid = ''key-1''\<rparr>
          else if h = ''h2'' then Some \<lparr>alg = ''HS256'', kid = ''key-1''\<rparr>
          else None),
      decodeClaims = (\<lambda>c.
          \<lparr>sub = Some ''auth0|user-123'',
           iss = Some ''https://test-tenant.auth0.com/'',
           aud = Some (Single ''https://test-api.example.com''),
           exp = Some (if c = ''c1'' then 2000 else 1000),
           iat = Some 500\<rparr>),
      resolveKey = (\<lambda>k. if k = ''key-1'' then Some ''public-key-1'' else None),
      signatureValid = (\<lambda>key algorithm token. key = ''public-key-1'')\<rparr>"

section \<open>The guard and the filter\<close>

text \<open>
  C1. When the guard's \<open>handleRequest\<close> is called with no error (\<open>err\<close> is
  \<^verbatim>\<open>undefined\<close> or \<^verbatim>\<open>null\<close>) and no user (\<open>user\<close> is falsy), it throws an
  \<^verbatim>\<open>UnauthorizedException\<close> of status 401 with the message ``Requires authentication'',
  whatever the info, the context and the status argument are: the reason of the failure,
  which Passport passes as info, does not reach the thrown error. The filter answers
  that exception with status 401 and the body holding this message.
\<close>

theorem guard_rejects_with_generic_401:
  assumes "err = Undefined \<or> err = Null" and "\<not> truthy user"
  shows "handleRequest err user info ctx st =
           Inl (HttpExceptionObject
                 \<lparr>name = ''UnauthorizedException'', getStatus = 401,
                  HttpException.message = ''Requires authentication''\<rparr>) \<and>
         catch \<lparr>name = ''UnauthorizedException'', getStatus = 401,
                HttpException.message = ''Requires authentication''\<rparr> response =
           response\<lparr>statusCode := 401,
                    jsonBody := Some (ErrorMessageJson
                      \<lparr>ErrorMessage.message = ''Requires authentication''\<rparr>)\<rparr>"
  using assms
  by (auto simp: handleRequest_def UnauthorizedException_def HttpStatus_UNAUTHORIZED_def
      catch_def errorMessages_def nullish_def HttpStatus_NOT_FOUND_def
      HttpStatus_INTERNAL_SERVER_ERROR_def)

theorem guard_rejects_with_generic_401_witness:
  "handleRequest Null (Bool False) (Object ''TokenExpiredError: jwt expired'') (Some ()) Undefined =
     Inl (HttpExceptionObject
           \<lparr>name = ''UnauthorizedException'', getStatus = 401,
            HttpException.message = ''Requires authentication''\<rparr>) \<and>
   handleRequest Undefined Undefined (Object ''Error: No auth token'') (Some ()) Undefined =
     Inl (HttpExceptionObject
           \<lparr>name = ''UnauthorizedException'', getStatus = 401,
            HttpException.message = ''Requires authentication''\<rparr>)"
proof -
  have n: "(Null :: string js_value) = Undefined \<or> (Null :: string js_value) = Null"
    by simp
  have u: "(Undefined :: string js_value) = Undefined \<or>
           (Undefined :: string js_value) = Null"
    by simp
  have f: "\<not> truthy (Bool False :: string js_value)"
    by simp
  have g: "\<not> truthy (Undefined :: string js_value)"
    by simp
  from guard_rejects_with_generic_401 [OF n f] guard_rejects_with_generic_401 [OF u g]
  show ?thesis by blast
qed

text \<open>
  C2. For every \<^verbatim>\<open>HttpException\<close> given to the filter's \<open>catch\<close>, the response gets the
  exception's status, and its body is the object whose one field \<open>message\<close> is
  ``Not Found'' for status 404, ``Internal server error'' for status 500 (whatever the
  exception's own message is) and the exception's own message for every other status.
\<close>

theorem filter_status_and_message:
  "statusCode (catch exception response) = getStatus exception \<and>
   jsonBody (catch exception response) =
     Some (ErrorMessageJson
       \<lparr>ErrorMessage.message =
          (if getStatus exception = 404 then ''Not Found''
           else if getStatus exception = 500 then ''Internal server error''
           else HttpException.message exception)\<rparr>)"
  by (simp add: catch_def errorMessages_def nullish_def Let_def
      HttpStatus_NOT_FOUND_def HttpStatus_INTERNAL_SERVER_ERROR_def)

theorem filter_status_and_message_witness:
  "catch \<lparr>name = ''HttpException'', getStatus = 500,
          HttpException.message = ''Something broke''\<rparr> freshResponse =
     \<lparr>statusCode = 500,
      jsonBody = Some (ErrorMessageJson \<lparr>ErrorMessage.message = ''Internal server error''\<rparr>)\<rparr> \<and>
   catch \<lparr>name = ''HttpException'', getStatus = 404,
          HttpException.message = ''No such route''\<rparr> freshResponse =
     \<lparr>statusCode = 404,
      jsonBody = Some (ErrorMessageJson \<lparr>ErrorMessage.message = ''Not Found''\<rparr>)\<rparr> \<and>
   catch (UnauthorizedException ''Requires authentication'') freshResponse =
     \<lparr>statusCode = 401,
      jsonBody = Some (ErrorMessageJson \<lparr>ErrorMessage.message = ''Requires authentication''\<rparr>)\<rparr>"
  using
    filter_status_and_message
      [of "\<lparr>name = ''HttpException'', getStatus = 500,
            HttpException.message = ''Something broke''\<rparr>" freshResponse]
    filter_status_and_message
      [of "\<lparr>name = ''HttpException'', getStatus = 404,
            HttpException.message = ''No such route''\<rparr>" freshResponse]
    filter_status_and_message [of "UnauthorizedException ''Requires authentication''" freshResponse]
  by (simp add: Response.equality UnauthorizedException_def HttpStatus_UNAUTHORIZED_def)

text \<open>
  C3. When \<open>err\<close> is neither \<^verbatim>\<open>undefined\<close> nor \<^verbatim>\<open>null\<close>, \<open>handleRequest\<close> throws
  that very value, whatever the user is (also a validated one). So the thrown value is
  the generic 401 exception only if \<open>err\<close> was it already.
\<close>

theorem guard_rethrows_error:
  assumes "err \<noteq> Undefined" and "err \<noteq> Null"
  shows "handleRequest err user info ctx st = Inl err \<and>
         (handleRequest err user info ctx st =
            Inl (HttpExceptionObject (UnauthorizedException ''Requires authentication''))
          \<longleftrightarrow> err = HttpExceptionObject (UnauthorizedException ''Requires authentication''))"
  using assms by (simp add: handleRequest_def)

theorem guard_rethrows_error_witness:
  "handleRequest (Object ''Error: Invalid token'') (Object ''{sub: user-1}'') Undefined
       (None :: unit option) Undefined =
     Inl (Object ''Error: Invalid token'')"
proof -
  have a: "Object ''Error: Invalid token'' \<noteq> (Undefined :: string js_value)"
    by simp
  have b: "Object ''Error: Invalid token'' \<noteq> (Null :: string js_value)"
    by simp
  from guard_rethrows_error [OF a b] show ?thesis by blast
qed

text \<open>
  C9. The strategy's \<open>validate\<close> returns the payload it is given, on every extension
  of the payload record, and \<open>handleRequest\<close> called with no error returns the user
  it is given whenever that user is truthy. So the object attached to the request after
  a successful verification is the decoded payload itself.
\<close>

theorem claims_attached_unchanged:
  "validate payload = payload \<and>
   handleRequest Null (Object (validate payload)) info ctx st = Inr (Object payload) \<and>
   handleRequest Undefined (Object (validate payload)) info ctx st = Inr (Object payload) \<and>
   ((err = Undefined \<or> err = Null) \<and> truthy user \<longrightarrow>
      handleRequest err user info ctx st = Inr user)"
  by (auto simp: validate_def handleRequest_def)

theorem claims_attached_unchanged_witness:
  "validate testPayload = testPayload \<and>
   handleRequest Null (Object (validate testPayload)) Undefined
       (None :: unit option) Undefined =
     Inr (Object testPayload) \<and>
   handleRequest Null (Str ''user-123'') (Null :: JwtPayload js_value) (None :: unit option)
       Undefined =
     Inr (Str ''user-123'')"
proof -
  have h: "((Null :: JwtPayload js_value) = Undefined \<or> (Null :: JwtPayload js_value) = Null) \<and>
           truthy (Str ''user-123'' :: JwtPayload js_value)"
    by simp
  from claims_attached_unchanged
         [of testPayload Undefined None Undefined Null
             "Str ''user-123''"]
       claims_attached_unchanged
         [of testPayload Null None Undefined Null
             "Str ''user-123''"]
       h
  show ?thesis by blast
qed

section \<open>Start-up\<close>

lemma checkEnvironment_loop_returns:
  "checkEnvironment_loop cfg vars = Inr u \<longleftrightarrow>
     (\<forall>v \<in> set vars. \<exists>s. cfg v = Some s \<and> s \<noteq> [])"
  by (induction vars) (auto simp: Let_def)

lemma checkEnvironment_loop_throws:
  "\<exists>v \<in> set vars. cfg v = None \<or> cfg v = Some [] \<Longrightarrow>
   \<exists>v \<in> set vars. (cfg v = None \<or> cfg v = Some []) \<and>
      checkEnvironment_loop cfg vars =
        Inl (Error (''Undefined environment variable: '' @ v))"
proof (induction vars)
  case Nil
  then show ?case by simp
next
  case (Cons a vars)
  show ?case
  proof (cases "cfg a = None \<or> cfg a = Some []")
    case True
    then show ?thesis by (auto simp: Let_def)
  next
    case False
    with Cons.prems have "\<exists>v \<in> set vars. cfg v = None \<or> cfg v = Some []"
      by auto
    from Cons.IH [OF this] False show ?thesis
      by (auto simp: Let_def)
  qed
qed

lemma bootstrap_rejected:
  "checkEnvironment cfg = Inl e \<Longrightarrow> bootstrap bindPort cfg = (Inl e, NestFactory_create)"
  by (simp add: bootstrap_def)

text \<open>
  C7. The required variables are PORT, AUTH0_ISSUER_BASE_URL, AUTH0_AUDIENCE and
  CLIENT_ORIGIN_URL. When at least one of them is undefined or the empty string,
  \<open>checkEnvironment\<close> throws an error whose message names a variable that is missing,
  \<open>bootstrap\<close> is rejected with that error, whatever the runtime would do with a
  port, and the application it leaves behind is not listening. When all four are defined and not empty, \<open>checkEnvironment\<close> returns.
\<close>

theorem startup_check_fails_fast:
  "set requiredEnvVars =
     {''PORT'', ''AUTH0_ISSUER_BASE_URL'', ''AUTH0_AUDIENCE'', ''CLIENT_ORIGIN_URL''} \<and>
   ((\<exists>v \<in> set requiredEnvVars. cfg v = None \<or> cfg v = Some []) \<longrightarrow>
      (\<exists>v \<in> set requiredEnvVars. (cfg v = None \<or> cfg v = Some []) \<and>
         checkEnvironment cfg = Inl (Error (''Undefined environment variable: '' @ v)) \<and>
         fst (bootstrap bindPort cfg) = Inl (Error (''Undefined environment variable: '' @ v))) \<and>
      listening (snd (bootstrap bindPort cfg)) = None) \<and>
   ((\<forall>v \<in> set requiredEnvVars. \<exists>s. cfg v = Some s \<and> s \<noteq> []) \<longrightarrow>
      checkEnvironment cfg = Inr ())"
proof (intro conjI impI)
  show "set requiredEnvVars =
          {''PORT'', ''AUTH0_ISSUER_BASE_URL'', ''AUTH0_AUDIENCE'', ''CLIENT_ORIGIN_URL''}"
    by (simp add: requiredEnvVars_def)
next
  assume m: "\<exists>v \<in> set requiredEnvVars. cfg v = None \<or> cfg v = Some []"
  from checkEnvironment_loop_throws [OF m]
  obtain v where v: "v \<in> set requiredEnvVars" "cfg v = None \<or> cfg v = Some []"
    "checkEnvironment cfg = Inl (Error (''Undefined environment variable: '' @ v))"
    unfolding checkEnvironment_def by blast
  from bootstrap_rejected [OF v(3), of bindPort] v
  show "\<exists>v \<in> set requiredEnvVars. (cfg v = None \<or> cfg v = Some []) \<and>
          checkEnvironment cfg = Inl (Error (''Undefined environment variable: '' @ v)) \<and>
          fst (bootstrap bindPort cfg) = Inl (Error (''Undefined environment variable: '' @ v))"
    by auto
  from bootstrap_rejected [OF v(3), of bindPort]
  show "listening (snd (bootstrap bindPort cfg)) = None"
    by (simp add: NestFactory_create_def)
next
  assume "\<forall>v \<in> set requiredEnvVars. \<exists>s. cfg v = Some s \<and> s \<noteq> []"
  then show "checkEnvironment cfg = Inr ()"
    unfolding checkEnvironment_def by (simp only: checkEnvironment_loop_returns)
qed

theorem startup_check_fails_fast_witness:
  "checkEnvironment (testConfig(''AUTH0_AUDIENCE'' := None)) =
     Inl (Error ''Undefined environment variable: AUTH0_AUDIENCE'') \<and>
   fst (bootstrap exampleBind (testConfig(''AUTH0_AUDIENCE'' := None))) =
     Inl (Error ''Undefined environment variable: AUTH0_AUDIENCE'') \<and>
   listening (snd (bootstrap exampleBind (testConfig(''AUTH0_AUDIENCE'' := None)))) = None \<and>
   listening (snd (bootstrap exampleBind (testConfig(''PORT'' \<mapsto> [])))) = None \<and>
   checkEnvironment testConfig = Inr ()"
proof -
  have missing: "\<exists>v \<in> set requiredEnvVars.
      (testConfig(''AUTH0_AUDIENCE'' := None)) v = None \<or>
      (testConfig(''AUTH0_AUDIENCE'' := None)) v = Some []"
    by (simp add: requiredEnvVars_def)
  have empty: "\<exists>v \<in> set requiredEnvVars.
      (testConfig(''PORT'' \<mapsto> [])) v = None \<or> (testConfig(''PORT'' \<mapsto> [])) v = Some []"
    by (simp add: requiredEnvVars_def)
  have present: "\<forall>v \<in> set requiredEnvVars. \<exists>s. testConfig v = Some s \<and> s \<noteq> []"
    by (simp add: requiredEnvVars_def testConfig_def)
  have only: "v = ''AUTH0_AUDIENCE''"
    if "v \<in> set requiredEnvVars"
      and "(testConfig(''AUTH0_AUDIENCE'' := None)) v = None \<or>
           (testConfig(''AUTH0_AUDIENCE'' := None)) v = Some []" for v
    using that by (auto simp: requiredEnvVars_def testConfig_def split: if_splits)
  from startup_check_fails_fast [of "testConfig(''AUTH0_AUDIENCE'' := None)" exampleBind] missing
  obtain v where v: "v \<in> set requiredEnvVars"
      "(testConfig(''AUTH0_AUDIENCE'' := None)) v = None \<or>
       (testConfig(''AUTH0_AUDIENCE'' := None)) v = Some []"
      "checkEnvironment (testConfig(''AUTH0_AUDIENCE'' := None)) =
         Inl (Error (''Undefined environment variable: '' @ v))"
      "fst (bootstrap exampleBind (testConfig(''AUTH0_AUDIENCE'' := None))) =
         Inl (Error (''Undefined environment variable: '' @ v))"
    and l: "listening (snd (bootstrap exampleBind (testConfig(''AUTH0_AUDIENCE'' := None)))) = None"
    by blast
  from only [OF v(1) v(2)] have n: "''Undefined environment variable: '' @ v =
      ''Undefined environment variable: AUTH0_AUDIENCE''"
    by simp
  from startup_check_fails_fast [of "testConfig(''PORT'' \<mapsto> [])" exampleBind] empty
  have e: "listening (snd (bootstrap exampleBind (testConfig(''PORT'' \<mapsto> [])))) = None"
    by blast
  from startup_check_fails_fast [of testConfig] present
  have p: "checkEnvironment testConfig = Inr ()"
    by blast
  from v(3,4) n l e p show ?thesis by simp
qed





section \<open>The strategy's options\<close>

lemma endsWith_slash: "endsWith s ''/'' \<longleftrightarrow> s \<noteq> [] \<and> last s = CHR ''/''"
proof (cases s rule: rev_cases)
  case Nil
  then show ?thesis by (simp add: endsWith_def)
next
  case (snoc ys y)
  then show ?thesis by (auto simp: endsWith_def)
qed

lemma endsWith_append_slash: "endsWith (s @ ''/'') ''/''"
  by (simp add: endsWith_slash)

lemma algorithms_constructor: "algorithms (JwtStrategy_constructor cfg) = [''RS256'']"
  by (simp add: JwtStrategy_constructor_def Let_def)

lemma ignoreExpiration_constructor: "ignoreExpiration (JwtStrategy_constructor cfg) = False"
  by (simp add: JwtStrategy_constructor_def Let_def)

lemma issuer_constructor:
  "cfg ''AUTH0_ISSUER_BASE_URL'' = Some base \<Longrightarrow>
   issuer (JwtStrategy_constructor cfg) = (if endsWith base ''/'' then base else base @ ''/'')"
  by (simp add: JwtStrategy_constructor_def nullish_def Let_def)

lemma jwksUri_constructor:
  "cfg ''AUTH0_ISSUER_BASE_URL'' = Some base \<Longrightarrow>
   jwksUri (secretOrKeyProvider (JwtStrategy_constructor cfg)) =
     (if endsWith base ''/'' then base @ ''.well-known/jwks.json''
      else base @ ''/.well-known/jwks.json'')"
  by (simp add: JwtStrategy_constructor_def nullish_def Let_def)

lemma verify_three_segments:
  assumes "segments token = [h, c, s]" and "decodeHeader env h = Some hdr"
    and "resolveKey env (kid hdr) = Some key"
  shows "verify env options now token =
           (if alg hdr \<notin> set (algorithms options) then Rejected SignatureInvalid
            else if \<not> signatureValid env key (alg hdr) token then Rejected SignatureInvalid
            else
              (let payload = decodeClaims env c
               in if \<not> ignoreExpiration options \<and>
                     (case exp payload of None \<Rightarrow> False | Some e \<Rightarrow> \<not> now < e)
                  then Rejected TokenExpired
                  else if \<not> audienceContains (aud payload) (audience options)
                  then Rejected AudienceMismatch
                  else if iss payload \<noteq> Some (issuer options)
                  then Rejected IssuerMismatch
                  else Verified payload))"
  using assms by (simp add: verify_def)

lemma verify_Verified:
  assumes "verify env options now token = Verified payload"
  shows "\<exists>h c s hdr key.
           segments token = [h, c, s] \<and> decodeHeader env h = Some hdr \<and>
           resolveKey env (kid hdr) = Some key \<and> alg hdr \<in> set (algorithms options) \<and>
           signatureValid env key (alg hdr) token \<and> payload = decodeClaims env c \<and>
           (ignoreExpiration options \<or>
              (case exp payload of None \<Rightarrow> True | Some e \<Rightarrow> now < e)) \<and>
           audienceContains (aud payload) (audience options) \<and>
           iss payload = Some (issuer options)"
  using assms
  by (auto simp: verify_def Let_def split: list.splits option.splits if_splits)

lemma verify_example:
  "verify exampleCollaborators (JwtStrategy_constructor testConfig) 1500 ''h1.c1.s'' =
     Verified (decodeClaims exampleCollaborators ''c1'')"
  by (simp add: verify_def exampleCollaborators_def JwtStrategy_constructor_def testConfig_def
      nullish_def endsWith_def Let_def)

lemma endsWith_two_slashes:
  "endsWith s ''//'' \<longleftrightarrow> endsWith s ''/'' \<and> endsWith (butlast s) ''/''"
proof (cases s rule: rev_cases)
  case Nil
  then show ?thesis by (simp add: endsWith_def)
next
  case (snoc ys y)
  show ?thesis
  proof (cases ys rule: rev_cases)
    case Nil
    with snoc show ?thesis by (simp add: endsWith_def)
  next
    case (snoc zs z)
    with \<open>s = ys @ [y]\<close> have s: "s = (zs @ [z]) @ [y]"
      by simp
    have "endsWith s ''//'' \<longleftrightarrow> z = CHR ''/'' \<and> y = CHR ''/''"
      unfolding s by (simp add: endsWith_def)
    moreover have "endsWith s ''/'' \<longleftrightarrow> y = CHR ''/''"
      unfolding s by (simp add: endsWith_slash)
    moreover have "endsWith (butlast s) ''/'' \<longleftrightarrow> z = CHR ''/''"
      unfolding s by (simp add: endsWith_slash butlast_append)
    ultimately show ?thesis by blast
  qed
qed

text \<open>
  C6, as amended. For every configured issuer base URL, the expected issuer in the
  options is the base URL when it ends with \<^verbatim>\<open>/\<close> and the base URL followed by
  \<^verbatim>\<open>/\<close> otherwise, so it always ends with \<^verbatim>\<open>/\<close>, and the JWKS address is the
  expected issuer followed by \<^verbatim>\<open>.well-known/jwks.json\<close>. The JWKS address is therefore
  the base URL without its final \<^verbatim>\<open>/\<close> (if it has one), one \<^verbatim>\<open>/\<close> and
  \<^verbatim>\<open>.well-known/jwks.json\<close>, and what stands before that \<^verbatim>\<open>/\<close> ends with \<^verbatim>\<open>/\<close>
  exactly when the base URL ends with \<^verbatim>\<open>//\<close>: the two are joined by exactly one
  \<^verbatim>\<open>/\<close> when the base URL does not end with \<^verbatim>\<open>//\<close>, and by more than one when it
  does. A token the verifier accepts under these options has exactly the expected issuer
  as its issuer claim.
\<close>

theorem jwks_uri_and_expected_issuer:
  assumes "cfg ''AUTH0_ISSUER_BASE_URL'' = Some base"
  shows "issuer (JwtStrategy_constructor cfg) =
           (if endsWith base ''/'' then base else base @ ''/'') \<and>
         endsWith (issuer (JwtStrategy_constructor cfg)) ''/'' \<and>
         jwksUri (secretOrKeyProvider (JwtStrategy_constructor cfg)) =
           issuer (JwtStrategy_constructor cfg) @ ''.well-known/jwks.json'' \<and>
         jwksUri (secretOrKeyProvider (JwtStrategy_constructor cfg)) =
           (if endsWith base ''/'' then butlast base else base) @ ''/'' @
             ''.well-known/jwks.json'' \<and>
         (endsWith (if endsWith base ''/'' then butlast base else base) ''/'' \<longleftrightarrow>
            endsWith base ''//'') \<and>
         (\<forall>env now token payload.
            verify env (JwtStrategy_constructor cfg) now token = Verified payload \<longrightarrow>
              iss payload = Some (if endsWith base ''/'' then base else base @ ''/''))"
proof -
  let ?opts = "JwtStrategy_constructor cfg"
  let ?stem = "if endsWith base ''/'' then butlast base else base"
  have b: "butlast base @ ''/'' = base" if "endsWith base ''/''"
    using that by (simp add: endsWith_slash) (metis append_butlast_last_id)
  note i = issuer_constructor [where cfg = cfg and base = base, OF assms]
  note j = jwksUri_constructor [where cfg = cfg and base = base, OF assms]
  have 1: "jwksUri (secretOrKeyProvider ?opts) = ?stem @ ''/'' @ ''.well-known/jwks.json''"
  proof (cases "endsWith base ''/''")
    case True
    from b [OF True] have "(butlast base @ ''/'') @ ''.well-known/jwks.json'' =
        base @ ''.well-known/jwks.json''"
      by (simp only:)
    with True j show ?thesis by simp
  next
    case False
    with j show ?thesis by simp
  qed
  have 2: "endsWith ?stem ''/'' \<longleftrightarrow> endsWith base ''//''"
    by (cases "endsWith base ''/''") (simp_all add: endsWith_two_slashes)
  have 3: "endsWith (issuer ?opts) ''/''"
    using i endsWith_append_slash [of base] by (cases "endsWith base ''/''") simp_all
  have 4: "jwksUri (secretOrKeyProvider ?opts) = issuer ?opts @ ''.well-known/jwks.json''"
    using i j by (cases "endsWith base ''/''") simp_all
  have 5: "\<forall>env now token payload.
            verify env ?opts now token = Verified payload \<longrightarrow>
              iss payload = Some (if endsWith base ''/'' then base else base @ ''/'')"
  proof (intro allI impI)
    fix env :: "'k Collaborators" and now token payload
    assume "verify env ?opts now token = Verified payload"
    from verify_Verified [OF this] have "iss payload = Some (issuer ?opts)"
      by blast
    with i show "iss payload = Some (if endsWith base ''/'' then base else base @ ''/'')"
      by (simp only:)
  qed
  from i 3 4 1 2 5 show ?thesis by (intro conjI)
qed

theorem jwks_uri_and_expected_issuer_witness:
  "jwksUri (secretOrKeyProvider (JwtStrategy_constructor testConfig)) =
     ''https://test-tenant.auth0.com/.well-known/jwks.json'' \<and>
   issuer (JwtStrategy_constructor testConfig) = ''https://test-tenant.auth0.com/'' \<and>
   \<not> endsWith ''https://test-tenant.auth0.com'' ''/'' \<and>
   jwksUri (secretOrKeyProvider (JwtStrategy_constructor
       (testConfig(''AUTH0_ISSUER_BASE_URL'' \<mapsto> ''https://test-tenant.auth0.com'')))) =
     ''https://test-tenant.auth0.com/.well-known/jwks.json'' \<and>
   issuer (JwtStrategy_constructor
       (testConfig(''AUTH0_ISSUER_BASE_URL'' \<mapsto> ''https://test-tenant.auth0.com''))) =
     ''https://test-tenant.auth0.com/'' \<and>
   iss (decodeClaims exampleCollaborators ''c1'') = Some ''https://test-tenant.auth0.com/''"
proof -
  have a: "testConfig ''AUTH0_ISSUER_BASE_URL'' = Some ''https://test-tenant.auth0.com/''"
    by (simp add: testConfig_def)
  have b: "(testConfig(''AUTH0_ISSUER_BASE_URL'' \<mapsto> ''https://test-tenant.auth0.com''))
             ''AUTH0_ISSUER_BASE_URL'' = Some ''https://test-tenant.auth0.com''"
    by simp
  have s: "endsWith ''https://test-tenant.auth0.com/'' ''/''"
    by (simp add: endsWith_def)
  have n: "\<not> endsWith ''https://test-tenant.auth0.com'' ''/''"
    by (simp add: endsWith_def)
  have d: "\<not> endsWith ''https://test-tenant.auth0.com/'' ''//''"
    by (simp add: endsWith_def)
  have e: "\<not> endsWith ''https://test-tenant.auth0.com'' ''//''"
    by (simp add: endsWith_def)
  note ta = jwks_uri_and_expected_issuer
    [where cfg = testConfig and base = "''https://test-tenant.auth0.com/''", OF a]
  note tb = jwks_uri_and_expected_issuer
    [where cfg = "testConfig(''AUTH0_ISSUER_BASE_URL'' \<mapsto> ''https://test-tenant.auth0.com'')"
       and base = "''https://test-tenant.auth0.com''", OF b]
  from ta s d have 1: "jwksUri (secretOrKeyProvider (JwtStrategy_constructor testConfig)) =
      ''https://test-tenant.auth0.com/.well-known/jwks.json''"
    by (elim conjE) simp
  from ta s have 2: "issuer (JwtStrategy_constructor testConfig) =
      ''https://test-tenant.auth0.com/''"
    by (elim conjE) simp
  from ta s d have 3: "\<not> endsWith ''https://test-tenant.auth0.com'' ''/''"
    by (elim conjE) simp
  from tb n e have 4: "jwksUri (secretOrKeyProvider (JwtStrategy_constructor
       (testConfig(''AUTH0_ISSUER_BASE_URL'' \<mapsto> ''https://test-tenant.auth0.com'')))) =
      ''https://test-tenant.auth0.com/.well-known/jwks.json''"
    by (elim conjE) simp
  from tb n have 5: "issuer (JwtStrategy_constructor
       (testConfig(''AUTH0_ISSUER_BASE_URL'' \<mapsto> ''https://test-tenant.auth0.com''))) =
      ''https://test-tenant.auth0.com/''"
    by (elim conjE) simp
  have 6: "iss (decodeClaims exampleCollaborators ''c1'') =
      Some ''https://test-tenant.auth0.com/''"
  proof -
    from ta
    have "verify exampleCollaborators (JwtStrategy_constructor testConfig) 1500 ''h1.c1.s'' =
            Verified (decodeClaims exampleCollaborators ''c1'') \<longrightarrow>
          iss (decodeClaims exampleCollaborators ''c1'') =
            Some (if endsWith ''https://test-tenant.auth0.com/'' ''/''
                  then ''https://test-tenant.auth0.com/''
                  else ''https://test-tenant.auth0.com/'' @ ''/'')"
      by blast
    with verify_example s show ?thesis
      by simp
  qed
  from 1 2 3 4 5 6 show ?thesis by (intro conjI)
qed

text \<open>
  C6 as it was stated has the base URL and \<^verbatim>\<open>.well-known/jwks.json\<close> joined by exactly
  one \<^verbatim>\<open>/\<close> for every configured value. The constructor tests only whether the value
  ends with \<^verbatim>\<open>/\<close> and keeps the value as it is when it does, so a base URL that ends
  with \<^verbatim>\<open>//\<close> gives an address with two \<^verbatim>\<open>/\<close> at the join: what stands before the
  last of them ends with \<^verbatim>\<open>/\<close> itself.
\<close>

theorem jwks_uri_two_slashes_counterexample:
  "jwksUri (secretOrKeyProvider (JwtStrategy_constructor
       [''AUTH0_ISSUER_BASE_URL'' \<mapsto> ''https://t.example.com//''])) =
     ''https://t.example.com//.well-known/jwks.json'' \<and>
   jwksUri (secretOrKeyProvider (JwtStrategy_constructor
       [''AUTH0_ISSUER_BASE_URL'' \<mapsto> ''https://t.example.com//''])) =
     ''https://t.example.com/'' @ ''/'' @ ''.well-known/jwks.json'' \<and>
   endsWith ''https://t.example.com/'' ''/'' \<and>
   jwksUri (secretOrKeyProvider (JwtStrategy_constructor
       [''AUTH0_ISSUER_BASE_URL'' \<mapsto> ''https://t.example.com//''])) \<noteq>
     ''https://t.example.com'' @ ''/'' @ ''.well-known/jwks.json''"
  by (simp add: JwtStrategy_constructor_def nullish_def endsWith_def Let_def)

section \<open>The request handlers\<close>

text \<open>
  C8. Each handler returns its fixed payload, whatever the controller instance: the
  three payloads are the three message texts, no two of them equal. The route table
  holds the public handler unguarded and the two others guarded. On the public route
  every request gets status 200 and the public payload, whatever the guard would have
  done with it, so any sequence of requests gets that one response each time; on the
  protected and the admin route a request the guard has allowed gets status 200 and
  the route's payload, whatever user the guard attached.
\<close>

theorem handlers_return_fixed_payloads:
  "getPublic controller = \<lparr>text' = ''This is a public message.''\<rparr> \<and>
   getProtected controller = \<lparr>text' = ''This is a protected message.''\<rparr> \<and>
   getAdmin controller = \<lparr>text' = ''This is an admin message.''\<rparr> \<and>
   distinct [getPublic controller, getProtected controller, getAdmin controller] \<and>
   map (\<lambda>r. (path r, useGuards r, handler r controller)) routes =
     [(''messages/public'', False, \<lparr>text' = ''This is a public message.''\<rparr>),
      (''messages/protected'', True, \<lparr>text' = ''This is a protected message.''\<rparr>),
      (''messages/admin'', True, \<lparr>text' = ''This is an admin message.''\<rparr>)] \<and>
   map (respond (routes ! 0) controller) guardResults =
     replicate (length guardResults)
       \<lparr>statusCode = 200,
        jsonBody = Some (MessageJson \<lparr>text' = ''This is a public message.''\<rparr>)\<rparr> \<and>
   respond (routes ! 1) controller (Inr user) =
     \<lparr>statusCode = 200,
      jsonBody = Some (MessageJson \<lparr>text' = ''This is a protected message.''\<rparr>)\<rparr> \<and>
   respond (routes ! 2) controller (Inr user) =
     \<lparr>statusCode = 200,
      jsonBody = Some (MessageJson \<lparr>text' = ''This is an admin message.''\<rparr>)\<rparr>"
proof -
  have h: "getPublic controller = \<lparr>text' = ''This is a public message.''\<rparr>"
    "getProtected controller = \<lparr>text' = ''This is a protected message.''\<rparr>"
    "getAdmin controller = \<lparr>text' = ''This is an admin message.''\<rparr>"
    by (simp_all add: getPublic_def getProtected_def getAdmin_def getPublicMessage_def
        getProtectedMessage_def getAdminMessage_def)
  have d: "distinct [getPublic controller, getProtected controller, getAdmin controller]"
    by (simp add: h)
  have t: "map (\<lambda>r. (path r, useGuards r, handler r controller)) routes =
     [(''messages/public'', False, \<lparr>text' = ''This is a public message.''\<rparr>),
      (''messages/protected'', True, \<lparr>text' = ''This is a protected message.''\<rparr>),
      (''messages/admin'', True, \<lparr>text' = ''This is an admin message.''\<rparr>)]"
    by (simp add: routes_def h)
  have p: "respond (routes ! 0) controller g =
     \<lparr>statusCode = 200,
      jsonBody = Some (MessageJson \<lparr>text' = ''This is a public message.''\<rparr>)\<rparr>"
    for g :: "'a js_value + 'a js_value"
    by (simp add: respond_def routes_def freshResponse_def h)
  have m: "map (respond (routes ! 0) controller) guardResults =
     replicate (length guardResults)
       \<lparr>statusCode = 200,
        jsonBody = Some (MessageJson \<lparr>text' = ''This is a public message.''\<rparr>)\<rparr>"
    by (induction guardResults) (simp_all add: p)
  have q: "respond (routes ! 1) controller (Inr user) =
     \<lparr>statusCode = 200,
      jsonBody = Some (MessageJson \<lparr>text' = ''This is a protected message.''\<rparr>)\<rparr>"
    by (simp add: respond_def routes_def freshResponse_def h)
  have a: "respond (routes ! 2) controller (Inr user) =
     \<lparr>statusCode = 200,
      jsonBody = Some (MessageJson \<lparr>text' = ''This is an admin message.''\<rparr>)\<rparr>"
    by (simp add: respond_def routes_def freshResponse_def h)
  from h d t m q a show ?thesis by (intro conjI)
qed

theorem handlers_return_fixed_payloads_witness:
  "getPublic \<lparr>messagesService = MessagesService\<rparr> = \<lparr>text' = ''This is a public message.''\<rparr> \<and>
   map (respond (routes ! 0) \<lparr>messagesService = MessagesService\<rparr>)
       [Inr (Object testPayload), Inl Null, Inr Undefined] =
     replicate 3
       \<lparr>statusCode = 200,
        jsonBody = Some (MessageJson \<lparr>text' = ''This is a public message.''\<rparr>)\<rparr> \<and>
   respond (routes ! 1) \<lparr>messagesService = MessagesService\<rparr> (Inr (Object testPayload)) =
     \<lparr>statusCode = 200,
      jsonBody = Some (MessageJson \<lparr>text' = ''This is a protected message.''\<rparr>)\<rparr> \<and>
   respond (routes ! 2) \<lparr>messagesService = MessagesService\<rparr> (Inr (Object testPayload)) =
     \<lparr>statusCode = 200,
      jsonBody = Some (MessageJson \<lparr>text' = ''This is an admin message.''\<rparr>)\<rparr>"
  using handlers_return_fixed_payloads
    [where controller = "\<lparr>messagesService = MessagesService\<rparr>"
       and guardResults = "[Inr (Object testPayload), Inl Null, Inr Undefined]"
       and user = "Object testPayload"]
  by (elim conjE) (simp add: numeral_3_eq_3)

section \<open>Token verification\<close>

lemma bearer_token_extracted:
  "fromAuthHeaderAsBearerToken (Some (''Bearer '' @ token)) = Some token"
  by (simp add: fromAuthHeaderAsBearerToken_def)

lemma canActivate_rejected:
  "authenticate env options now authorization = Rejected reason \<Longrightarrow>
   canActivate env options now authorization =
     Inl (HttpExceptionObject (UnauthorizedException ''Requires authentication''))"
  by (simp add: canActivate_def handleRequest_def)

lemma respond_unauthorized:
  "useGuards route \<Longrightarrow>
   respond route controller
       (Inl (HttpExceptionObject (UnauthorizedException ''Requires authentication''))) =
     \<lparr>statusCode = 401,
      jsonBody = Some (ErrorMessageJson
        \<lparr>ErrorMessage.message = ''Requires authentication''\<rparr>)\<rparr>"
  by (simp add: respond_def catch_def UnauthorizedException_def freshResponse_def
      errorMessages_def nullish_def HttpStatus_UNAUTHORIZED_def HttpStatus_NOT_FOUND_def
      HttpStatus_INTERNAL_SERVER_ERROR_def)

lemma guarded_route_answers_401:
  assumes "verify env options now token = Rejected reason" and "useGuards route"
  shows "respond route controller
             (canActivate env options now (Some (''Bearer '' @ token))) =
           \<lparr>statusCode = 401,
            jsonBody = Some (ErrorMessageJson
              \<lparr>ErrorMessage.message = ''Requires authentication''\<rparr>)\<rparr>"
proof -
  from assms(1)
  have "authenticate env options now (Some (''Bearer '' @ token)) = Rejected reason"
    unfolding authenticate_def bearer_token_extracted by simp
  from canActivate_rejected [OF this] assms(2) show ?thesis
    by (simp only: respond_unauthorized)
qed

text \<open>
  C4. Under the options the constructor builds (for every configuration), a token of
  three segments whose header decodes and declares an algorithm other than RS256 is
  rejected by the verifier, whatever the collaborators are (in particular whatever the
  signature check answers) and whatever the claims hold: with \<open>KeyResolutionFailed\<close>
  when its key does not resolve and with \<open>SignatureInvalid\<close> otherwise. It is never
  verified, and a request carrying it to a guarded route is answered 401 with the
  generic message.
\<close>

theorem only_RS256_is_accepted:
  assumes "segments token = [h, c, s]" and "decodeHeader env h = Some hdr"
    and "alg hdr \<noteq> ''RS256''"
  shows "verify env (JwtStrategy_constructor cfg) now token =
           (if resolveKey env (kid hdr) = None then Rejected KeyResolutionFailed
            else Rejected SignatureInvalid) \<and>
         (\<forall>payload. verify env (JwtStrategy_constructor cfg) now token \<noteq> Verified payload) \<and>
         (useGuards route \<longrightarrow>
            respond route controller
                (canActivate env (JwtStrategy_constructor cfg) now
                   (Some (''Bearer '' @ token))) =
              \<lparr>statusCode = 401,
               jsonBody = Some (ErrorMessageJson
                 \<lparr>ErrorMessage.message = ''Requires authentication''\<rparr>)\<rparr>)"
proof -
  let ?opts = "JwtStrategy_constructor cfg"
  have v: "verify env ?opts now token =
           (if resolveKey env (kid hdr) = None then Rejected KeyResolutionFailed
            else Rejected SignatureInvalid)"
  proof (cases "resolveKey env (kid hdr)")
    case None
    with assms show ?thesis by (simp add: verify_def)
  next
    case (Some key)
    with assms show ?thesis by (simp add: verify_three_segments algorithms_constructor)
  qed
  then obtain reason where r: "verify env ?opts now token = Rejected reason"
    by (cases "resolveKey env (kid hdr) = None") simp_all
  then have n: "\<forall>payload. verify env ?opts now token \<noteq> Verified payload"
    by simp
  from r guarded_route_answers_401
  have g: "useGuards route \<longrightarrow>
            respond route controller
                (canActivate env ?opts now (Some (''Bearer '' @ token))) =
              \<lparr>statusCode = 401,
               jsonBody = Some (ErrorMessageJson
                 \<lparr>ErrorMessage.message = ''Requires authentication''\<rparr>)\<rparr>"
    by blast
  from v n g show ?thesis by (intro conjI)
qed

theorem only_RS256_is_accepted_witness:
  "signatureValid exampleCollaborators ''public-key-1'' ''HS256'' ''h2.c1.s'' \<and>
   verify exampleCollaborators (JwtStrategy_constructor testConfig) 1500 ''h2.c1.s'' =
     Rejected SignatureInvalid \<and>
   respond (routes ! 1) \<lparr>messagesService = MessagesService\<rparr>
       (canActivate exampleCollaborators (JwtStrategy_constructor testConfig) 1500
          (Some ''Bearer h2.c1.s'')) =
     \<lparr>statusCode = 401,
      jsonBody = Some (ErrorMessageJson
        \<lparr>ErrorMessage.message = ''Requires authentication''\<rparr>)\<rparr>"
proof -
  have h1: "segments ''h2.c1.s'' = [''h2'', ''c1'', ''s'']"
    by simp
  have h2: "decodeHeader exampleCollaborators ''h2'' = Some \<lparr>alg = ''HS256'', kid = ''key-1''\<rparr>"
    by (simp add: exampleCollaborators_def)
  have h3: "alg \<lparr>alg = ''HS256'', kid = ''key-1''\<rparr> \<noteq> ''RS256''"
    by simp
  have k: "resolveKey exampleCollaborators (kid \<lparr>alg = ''HS256'', kid = ''key-1''\<rparr>) \<noteq> None"
    by (simp add: exampleCollaborators_def)
  have g: "useGuards (routes ! 1)"
    by (simp add: routes_def)
  have f: "signatureValid exampleCollaborators ''public-key-1'' ''HS256'' ''h2.c1.s''"
    by (simp add: exampleCollaborators_def)
  note t = only_RS256_is_accepted
    [where cfg = testConfig and now = 1500 and route = "routes ! 1"
       and controller = "\<lparr>messagesService = MessagesService\<rparr>", OF h1 h2 h3]
  from t k have 1: "verify exampleCollaborators (JwtStrategy_constructor testConfig) 1500
      ''h2.c1.s'' = Rejected SignatureInvalid"
    by (elim conjE) simp
  from t g have 2: "respond (routes ! 1) \<lparr>messagesService = MessagesService\<rparr>
       (canActivate exampleCollaborators (JwtStrategy_constructor testConfig) 1500
          (Some ''Bearer h2.c1.s'')) =
     \<lparr>statusCode = 401,
      jsonBody = Some (ErrorMessageJson
        \<lparr>ErrorMessage.message = ''Requires authentication''\<rparr>)\<rparr>"
    by (elim conjE) simp
  from f 1 2 show ?thesis by (intro conjI)
qed

text \<open>
  C5, as amended. Under the options the constructor builds (for every configuration), a
  token of three segments whose expiration claim is at or before the current time is
  rejected by the verifier, and a request carrying it to a guarded route is answered 401
  with the generic message. The reason of the rejection is that of the first check that
  fails, in the verifier's order: \<open>MalformedToken\<close> when the header does not decode,
  \<open>KeyResolutionFailed\<close> when the key does not resolve, \<open>SignatureInvalid\<close> when
  the algorithm is not RS256 or the signature does not verify, and \<open>TokenExpired\<close>
  when all of these checks pass. A verified payload has no expiration claim or one
  strictly greater than the current time, so the expiration check is never skipped.
\<close>

theorem expired_token_is_rejected:
  "(segments token = [h, c, s] \<and> exp (decodeClaims env c) = Some e \<and> e \<le> now \<longrightarrow>
      verify env (JwtStrategy_constructor cfg) now token =
        (case decodeHeader env h of
           None \<Rightarrow> Rejected MalformedToken
         | Some dh \<Rightarrow>
            (case resolveKey env (kid dh) of
               None \<Rightarrow> Rejected KeyResolutionFailed
             | Some k \<Rightarrow>
                if alg dh = ''RS256'' \<and> signatureValid env k (alg dh) token
                then Rejected TokenExpired
                else Rejected SignatureInvalid)) \<and>
      (\<exists>reason. verify env (JwtStrategy_constructor cfg) now token = Rejected reason) \<and>
      (decodeHeader env h = Some hdr \<and> resolveKey env (kid hdr) = Some key \<and>
       alg hdr = ''RS256'' \<and> signatureValid env key (alg hdr) token \<longrightarrow>
         verify env (JwtStrategy_constructor cfg) now token = Rejected TokenExpired) \<and>
      (useGuards route \<longrightarrow>
         respond route controller
             (canActivate env (JwtStrategy_constructor cfg) now
                (Some (''Bearer '' @ token))) =
           \<lparr>statusCode = 401,
            jsonBody = Some (ErrorMessageJson
              \<lparr>ErrorMessage.message = ''Requires authentication''\<rparr>)\<rparr>)) \<and>
   (verify env (JwtStrategy_constructor cfg) now token = Verified payload \<longrightarrow>
      exp payload = None \<or> (\<exists>e'. exp payload = Some e' \<and> now < e'))"
proof (intro conjI impI)
  let ?opts = "JwtStrategy_constructor cfg"
  assume a: "segments token = [h, c, s] \<and> exp (decodeClaims env c) = Some e \<and> e \<le> now"
  show x: "verify env ?opts now token =
        (case decodeHeader env h of
           None \<Rightarrow> Rejected MalformedToken
         | Some dh \<Rightarrow>
            (case resolveKey env (kid dh) of
               None \<Rightarrow> Rejected KeyResolutionFailed
             | Some k \<Rightarrow>
                if alg dh = ''RS256'' \<and> signatureValid env k (alg dh) token
                then Rejected TokenExpired
                else Rejected SignatureInvalid))"
  proof (cases "decodeHeader env h")
    case None
    with a show ?thesis by (simp add: verify_def)
  next
    case (Some dh)
    show ?thesis
    proof (cases "resolveKey env (kid dh)")
      case None
      with a Some show ?thesis by (simp add: verify_def)
    next
      case (Some k)
      with a \<open>decodeHeader env h = Some dh\<close> show ?thesis
        by (auto simp: verify_three_segments algorithms_constructor
            ignoreExpiration_constructor)
    qed
  qed
  then show r: "\<exists>reason. verify env ?opts now token = Rejected reason"
    by (auto split: option.splits if_splits)
  {
    assume "useGuards route"
    with r guarded_route_answers_401
    show "respond route controller (canActivate env ?opts now (Some (''Bearer '' @ token))) =
           \<lparr>statusCode = 401,
            jsonBody = Some (ErrorMessageJson
              \<lparr>ErrorMessage.message = ''Requires authentication''\<rparr>)\<rparr>"
      by blast
  }
  {
    assume "decodeHeader env h = Some hdr \<and> resolveKey env (kid hdr) = Some key \<and>
       alg hdr = ''RS256'' \<and> signatureValid env key (alg hdr) token"
    with x show "verify env ?opts now token = Rejected TokenExpired"
      by auto
  }
next
  assume "verify env (JwtStrategy_constructor cfg) now token = Verified payload"
  from verify_Verified [OF this]
  show "exp payload = None \<or> (\<exists>e'. exp payload = Some e' \<and> now < e')"
    by (auto simp: ignoreExpiration_constructor split: option.splits)
qed

theorem expired_token_is_rejected_witness:
  "verify exampleCollaborators (JwtStrategy_constructor testConfig) 1000 ''h1.c2.s'' =
     Rejected TokenExpired \<and>
   verify exampleCollaborators (JwtStrategy_constructor testConfig) 1000 ''h3.c2.s'' =
     Rejected MalformedToken \<and>
   respond (routes ! 2) \<lparr>messagesService = MessagesService\<rparr>
       (canActivate exampleCollaborators (JwtStrategy_constructor testConfig) 1000
          (Some ''Bearer h1.c2.s'')) =
     \<lparr>statusCode = 401,
      jsonBody = Some (ErrorMessageJson
        \<lparr>ErrorMessage.message = ''Requires authentication''\<rparr>)\<rparr> \<and>
   verify exampleCollaborators (JwtStrategy_constructor testConfig) 1500 ''h1.c1.s'' =
     Verified (decodeClaims exampleCollaborators ''c1'') \<and>
   (\<exists>e'. exp (decodeClaims exampleCollaborators ''c1'') = Some e' \<and> 1500 < e')"
proof -
  have a: "segments ''h1.c2.s'' = [''h1'', ''c2'', ''s''] \<and>
           exp (decodeClaims exampleCollaborators ''c2'') = Some 1000 \<and> (1000::int) \<le> 1000"
    by (simp add: exampleCollaborators_def)
  have a3: "segments ''h3.c2.s'' = [''h3'', ''c2'', ''s''] \<and>
           exp (decodeClaims exampleCollaborators ''c2'') = Some 1000 \<and> (1000::int) \<le> 1000"
    by (simp add: exampleCollaborators_def)
  have b: "decodeHeader exampleCollaborators ''h1'' = Some \<lparr>alg = ''RS256'', kid = ''key-1''\<rparr> \<and>
           resolveKey exampleCollaborators (kid \<lparr>alg = ''RS256'', kid = ''key-1''\<rparr>) =
             Some ''public-key-1'' \<and>
           alg \<lparr>alg = ''RS256'', kid = ''key-1''\<rparr> = ''RS256'' \<and>
           signatureValid exampleCollaborators ''public-key-1''
             (alg \<lparr>alg = ''RS256'', kid = ''key-1''\<rparr>) ''h1.c2.s''"
    by (simp add: exampleCollaborators_def)
  have b3: "decodeHeader exampleCollaborators ''h3'' = None"
    by (simp add: exampleCollaborators_def)
  have g: "useGuards (routes ! 2)"
    by (simp add: routes_def)
  have d: "exp (decodeClaims exampleCollaborators ''c1'') \<noteq> None"
    by (simp add: exampleCollaborators_def)
  note t = expired_token_is_rejected
    [where token = "''h1.c2.s''" and h = "''h1''" and c = "''c2''" and s = "''s''"
       and env = exampleCollaborators and e = 1000 and now = 1000 and cfg = testConfig
       and hdr = "\<lparr>alg = ''RS256'', kid = ''key-1''\<rparr>" and key = "''public-key-1''"
       and route = "routes ! 2" and controller = "\<lparr>messagesService = MessagesService\<rparr>"]
  note t3 = expired_token_is_rejected
    [where token = "''h3.c2.s''" and h = "''h3''" and c = "''c2''" and s = "''s''"
       and env = exampleCollaborators and e = 1000 and now = 1000 and cfg = testConfig]
  note u = expired_token_is_rejected
    [where token = "''h1.c1.s''" and env = exampleCollaborators and now = 1500
       and cfg = testConfig and payload = "decodeClaims exampleCollaborators ''c1''"]
  from t a b have 1: "verify exampleCollaborators (JwtStrategy_constructor testConfig) 1000
      ''h1.c2.s'' = Rejected TokenExpired"
    by blast
  from t3 [THEN conjunct1] a3
  have "verify exampleCollaborators (JwtStrategy_constructor testConfig) 1000 ''h3.c2.s'' =
        (case decodeHeader exampleCollaborators ''h3'' of
           None \<Rightarrow> Rejected MalformedToken
         | Some dh \<Rightarrow>
            (case resolveKey exampleCollaborators (kid dh) of
               None \<Rightarrow> Rejected KeyResolutionFailed
             | Some k \<Rightarrow>
                if alg dh = ''RS256'' \<and>
                   signatureValid exampleCollaborators k (alg dh) ''h3.c2.s''
                then Rejected TokenExpired
                else Rejected SignatureInvalid))"
    by blast
  with b3 have 3: "verify exampleCollaborators (JwtStrategy_constructor testConfig) 1000
      ''h3.c2.s'' = Rejected MalformedToken"
    by simp
  from t a g have "respond (routes ! 2) \<lparr>messagesService = MessagesService\<rparr>
       (canActivate exampleCollaborators (JwtStrategy_constructor testConfig) 1000
          (Some (''Bearer '' @ ''h1.c2.s''))) =
     \<lparr>statusCode = 401,
      jsonBody = Some (ErrorMessageJson
        \<lparr>ErrorMessage.message = ''Requires authentication''\<rparr>)\<rparr>"
    by blast
  then have 2: "respond (routes ! 2) \<lparr>messagesService = MessagesService\<rparr>
       (canActivate exampleCollaborators (JwtStrategy_constructor testConfig) 1000
          (Some ''Bearer h1.c2.s'')) =
     \<lparr>statusCode = 401,
      jsonBody = Some (ErrorMessageJson
        \<lparr>ErrorMessage.message = ''Requires authentication''\<rparr>)\<rparr>"
    by simp
  from u [THEN conjunct2] verify_example d
  have 4: "\<exists>e'. exp (decodeClaims exampleCollaborators ''c1'') = Some e' \<and> 1500 < e'"
    by blast
  from 1 3 2 verify_example 4 show ?thesis by (intro conjI)
qed

text \<open>
  C5 as it was stated gives \<open>TokenExpired\<close> as the outcome for every token whose
  expiration is at or before the current time. The verifier checks the algorithm and the
  signature before it reads the claims, so an expired token that also declares HS256 is
  rejected with \<open>SignatureInvalid\<close>: here the token \<open>h2.c2.s\<close> at time 1000, the
  time at which it expires.
\<close>

theorem expired_token_reason_counterexample:
  "segments ''h2.c2.s'' = [''h2'', ''c2'', ''s''] \<and>
   exp (decodeClaims exampleCollaborators ''c2'') = Some 1000 \<and>
   (1000 :: int) \<le> 1000 \<and>
   verify exampleCollaborators (JwtStrategy_constructor testConfig) 1000 ''h2.c2.s'' =
     Rejected SignatureInvalid \<and>
   verify exampleCollaborators (JwtStrategy_constructor testConfig) 1000 ''h2.c2.s'' \<noteq>
     Rejected TokenExpired"
  by (simp add: verify_def exampleCollaborators_def JwtStrategy_constructor_def Let_def)

end
